theory Spec2Isabelle
  imports Complex_Main
begin

section \<open>Numbers as the program sees them\<close>

text \<open>
  The fitting code of \<^verbatim>\<open>pycheops/dataset.py\<close> computes with numpy doubles, whose special
  values steer its control flow: a log-probability of minus infinity is a rejection, a NaN
  fails every comparison.  A value is therefore a real number or one of the three special
  values.  Arithmetic follows numpy (a division by zero gives an infinity or NaN and does
  not raise); rounding, overflow and the sign of zero are not represented.
\<close>

datatype fval = Fin real | PInf | NInf | NaN

fun flt :: "fval \<Rightarrow> fval \<Rightarrow> bool" where
  "flt (Fin a) (Fin b) = (a < b)"
| "flt (Fin a) PInf = True"
| "flt NInf (Fin b) = True"
| "flt NInf PInf = True"
| "flt _ _ = False"

definition fgt :: "fval \<Rightarrow> fval \<Rightarrow> bool" where
  "fgt x y = flt y x"

fun isfinite :: "fval \<Rightarrow> bool" where
  "isfinite (Fin a) = True"
| "isfinite _ = False"

fun isnan :: "fval \<Rightarrow> bool" where
  "isnan NaN = True"
| "isnan _ = False"

fun fneg :: "fval \<Rightarrow> fval" where
  "fneg (Fin a) = Fin (- a)"
| "fneg PInf = NInf"
| "fneg NInf = PInf"
| "fneg NaN = NaN"

fun fadd :: "fval \<Rightarrow> fval \<Rightarrow> fval" where
  "fadd (Fin a) (Fin b) = Fin (a + b)"
| "fadd NaN _ = NaN"
| "fadd _ NaN = NaN"
| "fadd PInf NInf = NaN"
| "fadd NInf PInf = NaN"
| "fadd PInf _ = PInf"
| "fadd NInf _ = NInf"
| "fadd (Fin a) y = y"

definition fsub :: "fval \<Rightarrow> fval \<Rightarrow> fval" where
  "fsub x y = fadd x (fneg y)"

text \<open>The sign of a real number applied to an infinity; zero times infinity is NaN.\<close>

definition inf_times :: "bool \<Rightarrow> real \<Rightarrow> fval" where
  "inf_times positive a =
     (if a = 0 then NaN else if (0 < a) = positive then PInf else NInf)"

fun fmul :: "fval \<Rightarrow> fval \<Rightarrow> fval" where
  "fmul (Fin a) (Fin b) = Fin (a * b)"
| "fmul NaN _ = NaN"
| "fmul _ NaN = NaN"
| "fmul PInf (Fin b) = inf_times True b"
| "fmul NInf (Fin b) = inf_times False b"
| "fmul (Fin a) PInf = inf_times True a"
| "fmul (Fin a) NInf = inf_times False a"
| "fmul PInf PInf = PInf"
| "fmul NInf NInf = PInf"
| "fmul PInf NInf = NInf"
| "fmul NInf PInf = NInf"

fun fdiv :: "fval \<Rightarrow> fval \<Rightarrow> fval" where
  "fdiv (Fin a) (Fin b) = (if b = 0 then inf_times True a else Fin (a / b))"
| "fdiv NaN _ = NaN"
| "fdiv _ NaN = NaN"
| "fdiv (Fin a) _ = Fin 0"
| "fdiv PInf (Fin b) = (if 0 \<le> b then PInf else NInf)"
| "fdiv NInf (Fin b) = (if 0 \<le> b then NInf else PInf)"
| "fdiv _ _ = NaN"

definition fsq :: "fval \<Rightarrow> fval" where
  \<comment> \<open>\<^verbatim>\<open>x**2\<close>\<close>
  "fsq x = fmul x x"

fun fsqrt :: "fval \<Rightarrow> fval" where
  "fsqrt (Fin a) = (if a < 0 then NaN else Fin (sqrt a))"
| "fsqrt PInf = PInf"
| "fsqrt _ = NaN"

fun flog :: "fval \<Rightarrow> fval" where
  \<comment> \<open>\<^verbatim>\<open>np.log\<close>, the natural logarithm\<close>
  "flog (Fin a) = (if a < 0 then NaN else if a = 0 then NInf else Fin (ln a))"
| "flog PInf = PInf"
| "flog _ = NaN"

fun fexp :: "fval \<Rightarrow> fval" where
  "fexp (Fin a) = Fin (exp a)"
| "fexp PInf = PInf"
| "fexp NInf = Fin 0"
| "fexp NaN = NaN"

section \<open>The prior on depth, width and impact parameter\<close>

text \<open>
  \<^verbatim>\<open>_log_prior(D, W, b)\<close>, lines 108 to 115.  The four guards are tried in the order of
  the source; each is a comparison that a NaN operand fails.
\<close>

definition log_prior :: "fval \<Rightarrow> fval \<Rightarrow> fval \<Rightarrow> fval" where
  "log_prior D W b =
     (if flt D (Fin (2 / 10 ^ 6)) \<or> fgt D (Fin (2 / 10)) then NInf
      else if flt b (Fin 0) \<or> fgt b (Fin 1) then NInf
      else if flt W (Fin (1 / 10 ^ 4)) then NInf
      else
        let k = fsqrt D;
            aR = fdiv (fsqrt (fsub (fsq (fadd (Fin 1) k)) (fsq b))) (fmul (Fin pi) W)
        in if flt aR (Fin 2) then NInf
           else fsub (fsub (fneg (flog (fmul (fmul (Fin 2) k) W))) (flog k)) (flog aR))"

section \<open>Parameters\<close>

text \<open>
  The exceptions the modelled code can raise.  \<^verbatim>\<open>ValueError\<close> is what
  \<^verbatim>\<open>_kw_to_Parameter\<close> raises for an unrecognised keyword type; \<^verbatim>\<open>KeyError\<close>,
  \<^verbatim>\<open>IndexError\<close> and \<^verbatim>\<open>NameError\<close> come from subscripting a parameter set with an unknown
  name, a position vector that is too short, and an expression naming an unknown parameter.
\<close>

datatype error = ValueError | KeyError | IndexError | NameError

text \<open>A \<^verbatim>\<open>UFloat\<close> of the \<^verbatim>\<open>uncertainties\<close> package: \<^verbatim>\<open>u.n\<close> and \<^verbatim>\<open>u.s\<close>.\<close>

record ufloat =
  nominal_value :: fval
  std_dev :: fval

text \<open>
  The constraint expressions of derived parameters.  The source writes them as strings
  (\<^verbatim>\<open>'sqrt(D)'\<close>); here they are the syntax trees of those strings.  \<^verbatim>\<open>PowN\<close> is a power
  with an integer literal as exponent, \<^verbatim>\<open>PowR\<close> one with a float literal.
\<close>

datatype expression =
    Num real
  | Name string
  | Pi
  | Add expression expression
  | Sub expression expression
  | Mul expression expression
  | Div expression expression
  | PowN expression nat
  | PowR expression real
  | Sqrt expression
  | Log10 expression
  | Exp expression

fun fpown :: "fval \<Rightarrow> nat \<Rightarrow> fval" where
  "fpown x 0 = Fin 1"
| "fpown x (Suc n) = (if n = 0 then x else fmul x (fpown x n))"

fun fpowr :: "fval \<Rightarrow> real \<Rightarrow> fval" where
  \<comment> \<open>a positive, non-integer exponent\<close>
  "fpowr (Fin a) p = (if a < 0 then NaN else Fin (a powr p))"
| "fpowr PInf p = PInf"
| "fpowr _ p = NaN"

fun flog10 :: "fval \<Rightarrow> fval" where
  "flog10 (Fin a) = (if a < 0 then NaN else if a = 0 then NInf else Fin (log 10 a))"
| "flog10 PInf = PInf"
| "flog10 _ = NaN"

fun eval_expr :: "(string \<rightharpoonup> fval) \<Rightarrow> expression \<Rightarrow> fval option" where
  "eval_expr env (Num c) = Some (Fin c)"
| "eval_expr env (Name x) = env x"
| "eval_expr env Pi = Some (Fin pi)"
| "eval_expr env (Add a b) =
     (case (eval_expr env a, eval_expr env b) of (Some x, Some y) \<Rightarrow> Some (fadd x y) | _ \<Rightarrow> None)"
| "eval_expr env (Sub a b) =
     (case (eval_expr env a, eval_expr env b) of (Some x, Some y) \<Rightarrow> Some (fsub x y) | _ \<Rightarrow> None)"
| "eval_expr env (Mul a b) =
     (case (eval_expr env a, eval_expr env b) of (Some x, Some y) \<Rightarrow> Some (fmul x y) | _ \<Rightarrow> None)"
| "eval_expr env (Div a b) =
     (case (eval_expr env a, eval_expr env b) of (Some x, Some y) \<Rightarrow> Some (fdiv x y) | _ \<Rightarrow> None)"
| "eval_expr env (PowN a n) = map_option (\<lambda>x. fpown x n) (eval_expr env a)"
| "eval_expr env (PowR a p) = map_option (\<lambda>x. fpowr x p) (eval_expr env a)"
| "eval_expr env (Sqrt a) = map_option fsqrt (eval_expr env a)"
| "eval_expr env (Log10 a) = map_option flog10 (eval_expr env a)"
| "eval_expr env (Exp a) = map_option fexp (eval_expr env a)"

text \<open>
  An lmfit \<^verbatim>\<open>Parameter\<close>, with the attributes the source reads and writes: \<^verbatim>\<open>name\<close>,
  \<^verbatim>\<open>value\<close> (\<open>pval\<close>), \<^verbatim>\<open>vary\<close>, \<^verbatim>\<open>min\<close> and \<^verbatim>\<open>max\<close> (\<open>pmin\<close>, \<open>pmax\<close>), \<^verbatim>\<open>expr\<close>,
  \<^verbatim>\<open>user_data\<close> (\<^verbatim>\<open>None\<close> or the \<^verbatim>\<open>UFloat\<close> of a Gaussian prior) and \<^verbatim>\<open>stderr\<close>.
\<close>

record parameter =
  name :: string
  pval :: fval
  vary :: bool
  pmin :: fval
  pmax :: fval
  expr :: "expression option"
  user_data :: "ufloat option"
  stderr :: "fval option"

text \<open>
  The constructor \<^verbatim>\<open>Parameter(name, value, vary, min, max, expr, user_data)\<close> with its
  defaults: \<^verbatim>\<open>vary=True\<close>, \<^verbatim>\<open>min=-inf\<close>, \<^verbatim>\<open>max=inf\<close>, no expression, no user data, no
  standard error.  A parameter with an expression is never varied.
\<close>

definition Parameter ::
  "string \<Rightarrow> fval \<Rightarrow> bool \<Rightarrow> fval \<Rightarrow> fval \<Rightarrow> expression option \<Rightarrow> ufloat option \<Rightarrow> parameter" where
  "Parameter nm v vr lo hi e u =
     \<lparr>name = nm, pval = v, vary = (vr \<and> e = None), pmin = lo, pmax = hi, expr = e,
      user_data = u, stderr = None\<rparr>"

text \<open>
  What a keyword argument of the fitting methods can be: a Python \<^verbatim>\<open>float\<close>, an \<^verbatim>\<open>int\<close>, a
  \<^verbatim>\<open>tuple\<close> of numbers of any length, a \<^verbatim>\<open>UFloat\<close>, a \<^verbatim>\<open>Parameter\<close>, or a value of another
  type (a string, a list, ...).
\<close>

datatype kwarg =
    KFloat fval
  | KInt int
  | KTuple "real list"
  | KUFloat ufloat
  | KParameter parameter
  | KOther

definition median :: "real list \<Rightarrow> fval" where
  \<comment> \<open>\<^verbatim>\<open>np.median\<close>: the middle of the sorted values, the mean of the two middle ones when
      their number is even, NaN when there is none\<close>
  "median xs =
     (let ys = sort xs; m = length ys div 2
      in if ys = [] then NaN
         else if odd (length ys) then Fin (ys ! m)
         else Fin ((ys ! (m - 1) + ys ! m) / 2))"

text \<open>
  \<^verbatim>\<open>_kw_to_Parameter(name, kwarg)\<close>, lines 76 to 89.  The builtins \<^verbatim>\<open>min\<close> and \<^verbatim>\<open>max\<close> raise
  \<^verbatim>\<open>ValueError\<close> on an empty tuple.
\<close>

definition kw_to_Parameter :: "string \<Rightarrow> kwarg \<Rightarrow> error + parameter" where
  "kw_to_Parameter nm kwarg =
     (case kwarg of
        KFloat v \<Rightarrow> Inr (Parameter nm v False NInf PInf None None)
      | KInt i \<Rightarrow> Inr (Parameter nm (Fin (of_int i)) False NInf PInf None None)
      | KTuple xs \<Rightarrow>
          (if xs = [] then Inl ValueError
           else Inr (Parameter nm (median xs) True (Fin (Min (set xs))) (Fin (Max (set xs)))
                       None None))
      | KUFloat u \<Rightarrow> Inr (Parameter nm (nominal_value u) True NInf PInf None (Some u))
      | KParameter p \<Rightarrow> Inr p
      | KOther \<Rightarrow> Inl ValueError)"

section \<open>Parameter sets\<close>

text \<open>
  An lmfit \<^verbatim>\<open>Parameters\<close> object is an ordered dictionary from names to parameters:
  an association list with one entry for each name, in insertion order.
\<close>

type_synonym parameters = "(string \<times> parameter) list"

definition lookup :: "parameters \<Rightarrow> string \<Rightarrow> error + parameter" where
  \<comment> \<open>\<^verbatim>\<open>params[nm]\<close>\<close>
  "lookup ps nm = (case map_of ps nm of None \<Rightarrow> Inl KeyError | Some p \<Rightarrow> Inr p)"

fun setitem :: "parameters \<Rightarrow> string \<Rightarrow> parameter \<Rightarrow> parameters" where
  \<comment> \<open>\<^verbatim>\<open>params[nm] = p\<close>: an existing entry keeps its place, a new one goes last\<close>
  "setitem [] nm p = [(nm, p)]"
| "setitem ((k, q) # ps) nm p = (if k = nm then (k, p) # ps else (k, q) # setitem ps nm p)"

definition add_expr :: "parameters \<Rightarrow> string \<Rightarrow> expression \<Rightarrow> fval \<Rightarrow> fval \<Rightarrow> parameters" where
  \<comment> \<open>\<^verbatim>\<open>params.add(nm, expr=e, min=lo, max=hi)\<close>; no value is given, and none is stored\<close>
  "add_expr ps nm e lo hi = setitem ps nm (Parameter nm NaN True lo hi (Some e) None)"


text \<open>
  Assigning to \<^verbatim>\<open>params[nm].value\<close>.  As the comment at lines 121 to 123 says, the value
  "gets set to the limiting value if out of range by the assignment to a parameter with
  min/max defined".
\<close>

definition clip :: "parameter \<Rightarrow> fval \<Rightarrow> fval" where
  "clip p v = (if fgt v (pmax p) then pmax p else if flt v (pmin p) then pmin p else v)"

definition set_value :: "parameters \<Rightarrow> string \<Rightarrow> fval \<Rightarrow> parameters" where
  "set_value ps nm v = map (\<lambda>(k, p). if k = nm then (k, p\<lparr>pval := clip p v\<rparr>) else (k, p)) ps"

text \<open>
  Reading \<^verbatim>\<open>params[nm].value\<close>.  A parameter with an expression has the value of its
  expression on the current values of the parameters before it (lmfit refuses an expression
  that names a parameter which is not in the set yet); as the comment at lines 137 and 138
  says, such a derived value can be out of the parameter's range.  \<open>valuesdict\<close> is
  \<^verbatim>\<open>params.valuesdict()\<close>, all the values in order.
\<close>

definition current :: "(string \<rightharpoonup> fval) \<Rightarrow> parameter \<Rightarrow> fval option" where
  "current env p = (case expr p of None \<Rightarrow> Some (pval p) | Some e \<Rightarrow> eval_expr env e)"

fun values_from :: "(string \<rightharpoonup> fval) \<Rightarrow> parameters \<Rightarrow> error + (string \<times> fval) list" where
  "values_from env [] = Inr []"
| "values_from env ((nm, p) # ps) =
     (case current env p of
        None \<Rightarrow> Inl NameError
      | Some v \<Rightarrow>
          (case values_from (env(nm \<mapsto> v)) ps of
             Inl e \<Rightarrow> Inl e
           | Inr vs \<Rightarrow> Inr ((nm, v) # vs)))"

definition valuesdict :: "parameters \<Rightarrow> error + (string \<times> fval) list" where
  "valuesdict ps = values_from Map.empty ps"

definition value_of :: "parameters \<Rightarrow> string \<Rightarrow> error + fval" where
  "value_of ps nm =
     (case valuesdict ps of
        Inl e \<Rightarrow> Inl e
      | Inr vs \<Rightarrow> (case map_of vs nm of None \<Rightarrow> Inl KeyError | Some v \<Rightarrow> Inr v))"

section \<open>Derived parameters of the transit and eclipse fits\<close>

text \<open>
  Lines 796 to 805 of \<^verbatim>\<open>lmfit_transit\<close>: the parameters \<^verbatim>\<open>k\<close>, \<^verbatim>\<open>aR\<close>, \<^verbatim>\<open>sini\<close>,
  \<^verbatim>\<open>logrho\<close>, \<^verbatim>\<open>e\<close>, \<^verbatim>\<open>q_1\<close> and \<^verbatim>\<open>q_2\<close> with their expressions and bounds, and the
  prior on \<^verbatim>\<open>logrho\<close>.  The expression strings are parsed as Python does: \<^verbatim>\<open>**\<close> binds
  tighter than \<^verbatim>\<open>*\<close> and \<^verbatim>\<open>/\<close>, which associate to the left.
\<close>

definition radicand :: expression where
  \<comment> \<open>\<^verbatim>\<open>(1+k)**2-b**2\<close>\<close>
  "radicand = Sub (PowN (Add (Num 1) (Name ''k'')) 2) (PowN (Name ''b'') 2)"


text \<open>Lines 1071 to 1074 of \<^verbatim>\<open>lmfit_eclipse\<close>.\<close>

definition add_derived_eclipse :: "parameters \<Rightarrow> parameters" where
  "add_derived_eclipse params =
     (let p1 = add_expr params ''k'' (Sqrt (Name ''D'')) (Fin 0) (Fin 1);
          p2 = add_expr p1 ''aR'' (Div (Div (Sqrt radicand) (Name ''W'')) Pi) (Fin 1) PInf;
          p3 = add_expr p2 ''sini''
                 (Sqrt (Sub (Num 1) (PowN (Div (Name ''b'') (Name ''aR'')) 2))) NInf PInf
      in add_expr p3 ''e'' (Add (PowN (Name ''f_c'') 2) (PowN (Name ''f_s'') 2)) (Fin 0) (Fin 1))"


text \<open>
  A small parameter set as \<^verbatim>\<open>lmfit_transit\<close> builds it before line 796, used to run the
  definitions on: free \<^verbatim>\<open>D\<close>, \<^verbatim>\<open>W\<close> and \<^verbatim>\<open>b\<close>, the other parameters fixed.
\<close>

definition transit_example :: parameters where
  "transit_example =
     [(''D'', Parameter ''D'' (Fin (1 / 100)) True (Fin 0) (Fin (1 / 2)) None None),
      (''W'', Parameter ''W'' (Fin (1 / 10)) True (Fin (1 / 100)) (Fin 1) None None),
      (''b'', Parameter ''b'' (Fin (1 / 2)) True (Fin 0) (Fin 1) None None),
      (''P'', Parameter ''P'' (Fin 1) False NInf PInf None None),
      (''f_c'', Parameter ''f_c'' (Fin 0) False NInf PInf None None),
      (''f_s'', Parameter ''f_s'' (Fin 0) False NInf PInf None None),
      (''h_1'', Parameter ''h_1'' (Fin (7224 / 10 ^ 4)) False NInf PInf None None),
      (''h_2'', Parameter ''h_2'' (Fin (6713 / 10 ^ 4)) False NInf PInf None None)]"

section \<open>The log-posterior functions\<close>

text \<open>
  Python passes the parameter set and the Gaussian-process object by reference, and the
  log-posterior functions work on a copy of the former and write to the latter.  The
  objects therefore live in a store, and a reference is an index into it.  A function that
  can write takes the store and returns it with its result.
\<close>

record gp =
  log_S0 :: fval
  log_Q :: fval
  log_omega0 :: fval
  log_sigma :: fval

record store =
  pobjs :: "parameters list"
  gobjs :: "gp list"

text \<open>\<^verbatim>\<open>params.copy()\<close>: a new object with the same content; its reference is returned.\<close>

definition copy_params :: "nat \<Rightarrow> store \<Rightarrow> nat \<times> store" where
  "copy_params r h = (length (pobjs h), h\<lparr>pobjs := pobjs h @ [pobjs h ! r]\<rparr>)"

text \<open>
  The first loop of both functions (lines 125 to 129 and 169 to 173): each free parameter
  is given its component of \<open>pos\<close>, unless the component is out of the parameter's range.
  The result is \<open>False\<close> when the function has to return minus infinity.
\<close>

fun assign_free :: "fval list \<Rightarrow> string list \<Rightarrow> nat \<Rightarrow> nat \<Rightarrow> store \<Rightarrow> (error + bool) \<times> store" where
  "assign_free pos [] i parcopy h = (Inr True, h)"
| "assign_free pos (p # vn) i parcopy h =
     (if length pos \<le> i then (Inl IndexError, h)
      else
        let v = pos ! i in
        case lookup (pobjs h ! parcopy) p of
          Inl e \<Rightarrow> (Inl e, h)
        | Inr par \<Rightarrow>
            if flt v (pmin par) \<or> fgt v (pmax par) then (Inr False, h)
            else assign_free pos vn (Suc i) parcopy
                   (h\<lparr>pobjs := (pobjs h)[parcopy := set_value (pobjs h ! parcopy) p v]\<rparr>))"

text \<open>
  The second loop (lines 143 to 151 and 186 to 194) over all the parameters of the copy:
  a value out of range or NaN rejects (\<open>None\<close>), a Gaussian prior adds its term to
  \<open>lnprior\<close>.
\<close>

fun check_params :: "parameters \<Rightarrow> string list \<Rightarrow> fval \<Rightarrow> error + fval option" where
  "check_params ps [] lnprior = Inr (Some lnprior)"
| "check_params ps (p # rest) lnprior =
     (case value_of ps p of
        Inl e \<Rightarrow> Inl e
      | Inr v \<Rightarrow>
          (case lookup ps p of
             Inl e \<Rightarrow> Inl e
           | Inr par \<Rightarrow>
               if flt v (pmin par) \<or> fgt v (pmax par) then Inr None
               else if isnan v then Inr None
               else check_params ps rest
                      (case user_data par of
                         None \<Rightarrow> lnprior
                       | Some u \<Rightarrow>
                           fadd lnprior
                             (fmul (Fin (- (1 / 2)))
                                (fsq (fdiv (fsub (nominal_value u) v) (std_dev u)))))))"

text \<open>
  Lines 139 to 153 (and 183 to 196): the prior on \<open>D\<close>, \<open>W\<close>, \<open>b\<close>, the second loop, and
  the test that the sum is finite.  \<open>None\<close> stands for the return of minus infinity.
\<close>

definition lnprior_of :: "parameters \<Rightarrow> error + fval option" where
  "lnprior_of ps =
     (case (lookup ps ''D'', lookup ps ''W'', lookup ps ''b'') of
        (Inr _, Inr _, Inr _) \<Rightarrow>
          (case (value_of ps ''D'', value_of ps ''W'', value_of ps ''b'') of
             (Inr D, Inr W, Inr b) \<Rightarrow>
               let lnprior = log_prior D W b in
               if \<not> isfinite lnprior then Inr None
               else (case check_params ps (map fst ps) lnprior of
                       Inl e \<Rightarrow> Inl e
                     | Inr None \<Rightarrow> Inr None
                     | Inr (Some l) \<Rightarrow> if \<not> isfinite l then Inr None else Inr (Some l))
           | (Inl e, _, _) \<Rightarrow> Inl e
           | (_, Inl e, _) \<Rightarrow> Inl e
           | (_, _, Inl e) \<Rightarrow> Inl e)
      | _ \<Rightarrow> Inl KeyError)"

text \<open>
  Arithmetic on arrays is elementwise; arrays of different lengths are combined only when
  one of them has a single element, and otherwise numpy raises \<^verbatim>\<open>ValueError\<close>.
\<close>

definition elementwise :: "(fval \<Rightarrow> fval \<Rightarrow> fval) \<Rightarrow> fval list \<Rightarrow> fval list \<Rightarrow> error + fval list" where
  "elementwise f xs ys =
     (if length xs = length ys then Inr (map2 f xs ys)
      else if length xs = 1 then Inr (map (f (hd xs)) ys)
      else if length ys = 1 then Inr (map (\<lambda>x. f x (hd ys)) xs)
      else Inl ValueError)"

definition fsum :: "fval list \<Rightarrow> fval" where
  "fsum xs = foldl fadd (Fin 0) xs"

text \<open>Lines 155 to 157: the likelihood of independent Gaussian noise with jitter.\<close>

definition lnlike_jitter :: "fval list \<Rightarrow> fval list \<Rightarrow> fval list \<Rightarrow> fval \<Rightarrow> error + fval" where
  "lnlike_jitter flux fit flux_err lsig =
     (let jitter = fexp lsig;
          s2 = map (\<lambda>e. fadd (fsq e) (fsq jitter)) flux_err
      in case elementwise fsub flux fit of
           Inl e \<Rightarrow> Inl e
         | Inr d \<Rightarrow>
             (case elementwise fdiv (map fsq d) s2 of
                Inl e \<Rightarrow> Inl e
              | Inr q \<Rightarrow>
                  (case elementwise fadd q (map (\<lambda>s. flog (fmul (fmul (Fin 2) (Fin pi)) s)) s2) of
                     Inl e \<Rightarrow> Inl e
                   | Inr t \<Rightarrow> Inr (fmul (Fin (- (1 / 2))) (fsum t)))))"

text \<open>What a log-posterior function returns: a log-probability, or with \<^verbatim>\<open>return_fit\<close> the model.\<close>

datatype result = LogProb fval | Fit "fval list"

text \<open>
  \<^verbatim>\<open>_log_posterior_jitter\<close>, lines 118 to 158.  \<open>model\<close> stands for \<^verbatim>\<open>model.eval\<close> of the
  lmfit model, a function of the parameter set and the times; \<open>params\<close> is the reference to
  the caller's parameter set.
\<close>

definition log_posterior_jitter ::
  "fval list \<Rightarrow> (parameters \<Rightarrow> fval list \<Rightarrow> fval list) \<Rightarrow> fval list \<Rightarrow> fval list \<Rightarrow> fval list
     \<Rightarrow> nat \<Rightarrow> string list \<Rightarrow> bool \<Rightarrow> store \<Rightarrow> (error + result) \<times> store" where
  "log_posterior_jitter pos model time flux flux_err params vn return_fit h =
     (let (parcopy, h1) = copy_params params h in
      case assign_free pos vn 0 parcopy h1 of
        (Inl e, h2) \<Rightarrow> (Inl e, h2)
      | (Inr False, h2) \<Rightarrow> (Inr (LogProb NInf), h2)
      | (Inr True, h2) \<Rightarrow>
          let ps = pobjs h2 ! parcopy;
              fit = model ps time
          in if return_fit then (Inr (Fit fit), h2)
             else if \<not> list_all isfinite fit then (Inr (LogProb NInf), h2)
             else (case lnprior_of ps of
                     Inl e \<Rightarrow> (Inl e, h2)
                   | Inr None \<Rightarrow> (Inr (LogProb NInf), h2)
                   | Inr (Some lnprior) \<Rightarrow>
                       (case value_of ps ''log_sigma'' of
                          Inl e \<Rightarrow> (Inl e, h2)
                        | Inr lsig \<Rightarrow>
                            (case lnlike_jitter flux fit flux_err lsig of
                               Inl e \<Rightarrow> (Inl e, h2)
                             | Inr lnlike \<Rightarrow> (Inr (LogProb (fadd lnlike lnprior)), h2)))))"

text \<open>\<^verbatim>\<open>gp.set_parameter(...)\<close>: one kernel parameter of the object at \<open>gpr\<close> is overwritten.\<close>

definition set_parameter :: "nat \<Rightarrow> (gp \<Rightarrow> gp) \<Rightarrow> store \<Rightarrow> store" where
  "set_parameter gpr upd h = h\<lparr>gobjs := (gobjs h)[gpr := upd (gobjs h ! gpr)]\<rparr>"

text \<open>
  Lines 198 to 207: the residuals, the four kernel parameters set one after the other from
  the copy, and the likelihood of the Gaussian process.  \<open>log_likelihood\<close> stands for the
  method \<^verbatim>\<open>gp.log_likelihood\<close> of celerite.
\<close>

definition lnlike_SHOTerm ::
  "parameters \<Rightarrow> fval list \<Rightarrow> fval list \<Rightarrow> nat \<Rightarrow> (gp \<Rightarrow> fval list \<Rightarrow> fval) \<Rightarrow> store
     \<Rightarrow> (error + fval) \<times> store" where
  "lnlike_SHOTerm ps flux fit gpr log_likelihood h =
     (case elementwise fsub flux fit of
        Inl e \<Rightarrow> (Inl e, h)
      | Inr resid \<Rightarrow>
          (case value_of ps ''log_S0'' of
             Inl e \<Rightarrow> (Inl e, h)
           | Inr s0 \<Rightarrow>
               let h1 = set_parameter gpr (\<lambda>g. g\<lparr>log_S0 := s0\<rparr>) h in
               (case value_of ps ''log_Q'' of
                  Inl e \<Rightarrow> (Inl e, h1)
                | Inr q \<Rightarrow>
                    let h2 = set_parameter gpr (\<lambda>g. g\<lparr>log_Q := q\<rparr>) h1 in
                    (case value_of ps ''log_omega0'' of
                       Inl e \<Rightarrow> (Inl e, h2)
                     | Inr w0 \<Rightarrow>
                         let h3 = set_parameter gpr (\<lambda>g. g\<lparr>log_omega0 := w0\<rparr>) h2 in
                         (case value_of ps ''log_sigma'' of
                            Inl e \<Rightarrow> (Inl e, h3)
                          | Inr sg \<Rightarrow>
                              let h4 = set_parameter gpr (\<lambda>g. g\<lparr>log_sigma := sg\<rparr>) h3
                              in (Inr (log_likelihood (gobjs h4 ! gpr) resid), h4))))))"

text \<open>
  \<^verbatim>\<open>_log_posterior_SHOTerm\<close>, lines 162 to 207.  \<open>gpr\<close> is the reference to the
  Gaussian-process object.
\<close>

definition log_posterior_SHOTerm ::
  "fval list \<Rightarrow> (parameters \<Rightarrow> fval list \<Rightarrow> fval list) \<Rightarrow> fval list \<Rightarrow> fval list \<Rightarrow> fval list
     \<Rightarrow> nat \<Rightarrow> string list \<Rightarrow> nat \<Rightarrow> (gp \<Rightarrow> fval list \<Rightarrow> fval) \<Rightarrow> bool \<Rightarrow> store
     \<Rightarrow> (error + result) \<times> store" where
  "log_posterior_SHOTerm pos model time flux flux_err params vn gpr log_likelihood return_fit h =
     (let (parcopy, h1) = copy_params params h in
      case assign_free pos vn 0 parcopy h1 of
        (Inl e, h2) \<Rightarrow> (Inl e, h2)
      | (Inr False, h2) \<Rightarrow> (Inr (LogProb NInf), h2)
      | (Inr True, h2) \<Rightarrow>
          let ps = pobjs h2 ! parcopy;
              fit = model ps time
          in if return_fit then (Inr (Fit fit), h2)
             else if \<not> list_all isfinite fit then (Inr (LogProb NInf), h2)
             else (case lnprior_of ps of
                     Inl e \<Rightarrow> (Inl e, h2)
                   | Inr None \<Rightarrow> (Inr (LogProb NInf), h2)
                   | Inr (Some lnprior) \<Rightarrow>
                       (case lnlike_SHOTerm ps flux fit gpr log_likelihood h2 of
                          (Inl e, h3) \<Rightarrow> (Inl e, h3)
                        | (Inr lnlike, h3) \<Rightarrow> (Inr (LogProb (fadd lnlike lnprior)), h3))))"

text \<open>
  A store holding the example set and one Gaussian-process object, and two models to run
  the log-posterior functions on: one that predicts a flux of 1 at each time, and one whose
  prediction is NaN.
\<close>

definition example_store :: store where
  "example_store =
     \<lparr>pobjs = [transit_example],
      gobjs = [\<lparr>log_S0 = Fin (- 12), log_Q = Fin 0, log_omega0 = Fin 3, log_sigma = Fin (- 10)\<rparr>]\<rparr>"

definition flat_model :: "parameters \<Rightarrow> fval list \<Rightarrow> fval list" where
  "flat_model ps t = map (\<lambda>_. Fin 1) t"


section \<open>The least-squares fit\<close>






section \<open>The ensemble sampler driver\<close>

text \<open>
  Lines 1214 to 1223 of \<^verbatim>\<open>emcee_sampler\<close>: the scale with which the starting value of a
  free parameter is perturbed.
\<close>

definition scale_of :: "parameter \<Rightarrow> fval" where
  "scale_of p =
     (case stderr p of
        None \<Rightarrow>
          (case user_data p of
             None \<Rightarrow> fmul (Fin (1 / 10)) (fsub (pmax p) (pmin p))
           | Some u \<Rightarrow> std_dev u)
      | Some se \<Rightarrow>
          if isfinite se then se
          else fmul (Fin (1 / 10)) (fsub (pmax p) (pmin p)))"

text \<open>Lines 1207 to 1223: the names, values and scales of the free parameters.\<close>

fun init_vectors :: "parameters \<Rightarrow> parameters \<Rightarrow> error + (string list \<times> fval list \<times> fval list)" where
  "init_vectors params [] = Inr ([], [], [])"
| "init_vectors params ((p, par) # rest) =
     (if vary par
      then (case value_of params p of
              Inl e \<Rightarrow> Inl e
            | Inr v \<Rightarrow>
                (case init_vectors params rest of
                   Inl e \<Rightarrow> Inl e
                 | Inr (vn, vv, vs) \<Rightarrow> Inr (p # vn, v # vv, scale_of par # vs)))
      else init_vectors params rest)"

text \<open>
  Line 1261, \<^verbatim>\<open>vv + vs*np.random.randn(n_varys)*init_scale\<close>, for the normal deviates
  \<open>z\<close> of one draw.
\<close>

definition position :: "fval list \<Rightarrow> fval list \<Rightarrow> real list \<Rightarrow> fval \<Rightarrow> fval list" where
  "position vv vs z init_scale =
     map (\<lambda>(v, sg, zj). fadd v (fmul (fmul sg (Fin zj)) init_scale)) (zip vv (zip vs z))"

text \<open>
  Lines 1259 to 1262, the loop that finds the starting position of one walker.  The random
  numbers are a given sequence of draws, \<open>randn k j\<close> being the \<open>j\<close>-th deviate of the
  \<open>k\<close>-th draw, and \<open>k\<close> counts the draws made so far.  \<open>logp\<close> is the log-posterior
  function with its other arguments.  The loop has no other exit than a value that differs
  from minus infinity (or an exception of \<open>logp\<close>), so the function is partial: \<open>None\<close>
  is a loop that does not end.
\<close>

partial_function (option) draw_walker ::
  "(fval list \<Rightarrow> error + fval) \<Rightarrow> fval list \<Rightarrow> fval list \<Rightarrow> fval \<Rightarrow> (nat \<Rightarrow> nat \<Rightarrow> real) \<Rightarrow> nat
     \<Rightarrow> ((error + fval list) \<times> nat) option" where
  "draw_walker logp vv vs init_scale randn k =
     (let pos_i = position vv vs (map (randn k) [0..<length vv]) init_scale in
      case logp pos_i of
        Inl e \<Rightarrow> Some (Inl e, Suc k)
      | Inr lnlike_i \<Rightarrow>
          if lnlike_i = NInf then draw_walker logp vv vs init_scale randn (Suc k)
          else Some (Inr pos_i, Suc k))"

text \<open>Lines 1254 to 1264: the starting positions of all the walkers.\<close>

fun init_walkers ::
  "(fval list \<Rightarrow> error + fval) \<Rightarrow> fval list \<Rightarrow> fval list \<Rightarrow> fval \<Rightarrow> (nat \<Rightarrow> nat \<Rightarrow> real) \<Rightarrow> nat \<Rightarrow> nat
     \<Rightarrow> ((error + fval list list) \<times> nat) option" where
  "init_walkers logp vv vs init_scale randn 0 k = Some (Inr [], k)"
| "init_walkers logp vv vs init_scale randn (Suc nwalkers) k =
     (case draw_walker logp vv vs init_scale randn k of
        None \<Rightarrow> None
      | Some (Inl e, k') \<Rightarrow> Some (Inl e, k')
      | Some (Inr pos_i, k') \<Rightarrow>
          (case init_walkers logp vv vs init_scale randn nwalkers k' of
             None \<Rightarrow> None
           | Some (Inl e, k'') \<Rightarrow> Some (Inl e, k'')
           | Some (Inr pos, k'') \<Rightarrow> Some (Inr (pos_i # pos), k'')))"





text \<open>
  The scale as the specification words it, to compare \<open>scale_of\<close> with: the standard error
  if it is finite; otherwise the sigma of the Gaussian prior if one is attached; otherwise
  a tenth of the width of the bounds.
\<close>

definition scale_spec :: "parameter \<Rightarrow> fval" where
  "scale_spec p =
     (if (case stderr p of None \<Rightarrow> False | Some se \<Rightarrow> isfinite se) then the (stderr p)
      else if user_data p \<noteq> None then std_dev (the (user_data p))
      else fmul (Fin (1 / 10)) (fsub (pmax p) (pmin p)))"

section \<open>The prior: properties\<close>

lemma log_prior_guards_pass:
  fixes D W b :: real
  assumes "2 / 10 ^ 6 \<le> D" "D \<le> 2 / 10" "1 / 10 ^ 4 \<le> W" "0 \<le> b" "b \<le> 1"
  shows "log_prior (Fin D) (Fin W) (Fin b) =
     (if sqrt ((1 + sqrt D)\<^sup>2 - b\<^sup>2) / (pi * W) < 2 then NInf
      else Fin (- ln (2 * sqrt D * W) - ln (sqrt D)
                - ln (sqrt ((1 + sqrt D)\<^sup>2 - b\<^sup>2) / (pi * W))))"
proof -
  define aR where "aR = sqrt ((1 + sqrt D)\<^sup>2 - b\<^sup>2) / (pi * W)"
  have D0: "0 < D" using assms(1) by simp
  then have k0: "0 < sqrt D" by simp
  have W0: "0 < W" using assms(3) by simp
  have "b\<^sup>2 \<le> 1" using assms(4,5) by (simp add: power_le_one)
  moreover have "1 < (1 + sqrt D)\<^sup>2" using k0 by (intro one_less_power) simp_all
  ultimately have rad: "0 < (1 + sqrt D)\<^sup>2 - b\<^sup>2" by simp
  have kW: "0 < 2 * sqrt D * W" using k0 W0 by simp
  have guards: "\<not> (flt (Fin D) (Fin (2 / 10 ^ 6)) \<or> fgt (Fin D) (Fin (2 / 10)))"
    "\<not> (flt (Fin b) (Fin 0) \<or> fgt (Fin b) (Fin 1))" "\<not> flt (Fin W) (Fin (1 / 10 ^ 4))"
    using assms by (simp_all add: fgt_def)
  have k: "fsqrt (Fin D) = Fin (sqrt D)" using D0 by simp
  have "fsub (fsq (fadd (Fin 1) (Fin (sqrt D)))) (fsq (Fin b)) = Fin ((1 + sqrt D)\<^sup>2 - b\<^sup>2)"
    by (simp add: fsub_def fsq_def power2_eq_square)
  moreover have "fsqrt (Fin ((1 + sqrt D)\<^sup>2 - b\<^sup>2)) = Fin (sqrt ((1 + sqrt D)\<^sup>2 - b\<^sup>2))"
    using rad by simp
  moreover have "fmul (Fin pi) (Fin W) = Fin (pi * W)" by simp
  moreover have "pi * W \<noteq> 0" using W0 by simp
  ultimately have a: "fdiv (fsqrt (fsub (fsq (fadd (Fin 1) (Fin (sqrt D)))) (fsq (Fin b))))
      (fmul (Fin pi) (Fin W)) = Fin aR"
    by (simp add: aR_def)
  have l1: "flog (fmul (fmul (Fin 2) (Fin (sqrt D))) (Fin W)) = Fin (ln (2 * sqrt D * W))"
  proof -
    have "fmul (fmul (Fin 2) (Fin (sqrt D))) (Fin W) = Fin (2 * sqrt D * W)" by simp
    moreover have "\<not> 2 * sqrt D * W < 0" "2 * sqrt D * W \<noteq> 0" using kW by linarith+
    ultimately show ?thesis by (simp only: flog.simps if_False)
  qed
  have l2: "flog (Fin (sqrt D)) = Fin (ln (sqrt D))" using k0 by simp
  have "log_prior (Fin D) (Fin W) (Fin b) =
     (if flt (Fin aR) (Fin 2) then NInf
      else fsub (fsub (fneg (Fin (ln (2 * sqrt D * W)))) (Fin (ln (sqrt D)))) (flog (Fin aR)))"
    unfolding log_prior_def by (simp only: guards if_False k a l1 l2 Let_def)
  also have "\<dots> = (if aR < 2 then NInf
      else Fin (- ln (2 * sqrt D * W) - ln (sqrt D) - ln aR))"
    by (simp add: fsub_def)
  finally show ?thesis by (simp only: aR_def)
qed

lemma log_prior_guard_fails:
  fixes D W b :: real
  assumes "\<not> (2 / 10 ^ 6 \<le> D \<and> D \<le> 2 / 10 \<and> 1 / 10 ^ 4 \<le> W \<and> 0 \<le> b \<and> b \<le> 1)"
  shows "log_prior (Fin D) (Fin W) (Fin b) = NInf"
  using assms by (auto simp add: log_prior_def fgt_def)

text \<open>
  Claim C3, as the code has it.  For real \<open>D\<close>, \<open>W\<close>, \<open>b\<close> with \<open>D\<close> in the closed interval
  from 2e-6 to 0.2, \<open>W\<close> at least 1e-4, \<open>b\<close> between 0 and 1 and an implied
  \<open>aR = sqrt((1+sqrt D)^2 - b^2) / (pi W)\<close> of at least 2, \<^verbatim>\<open>_log_prior\<close> returns the finite
  value \<open>- ln(2 k W) - ln k - ln aR\<close> with \<open>k = sqrt D\<close>; for every real input that violates
  one of these conditions it returns minus infinity.
\<close>

theorem log_prior_closed_interval:
  fixes D W b :: real
  shows "(2 / 10 ^ 6 \<le> D \<and> D \<le> 2 / 10 \<and> 1 / 10 ^ 4 \<le> W \<and> 0 \<le> b \<and> b \<le> 1
            \<and> 2 \<le> sqrt ((1 + sqrt D)\<^sup>2 - b\<^sup>2) / (pi * W)
          \<longrightarrow> log_prior (Fin D) (Fin W) (Fin b) =
                Fin (- ln (2 * sqrt D * W) - ln (sqrt D)
                     - ln (sqrt ((1 + sqrt D)\<^sup>2 - b\<^sup>2) / (pi * W))))
       \<and> (\<not> (2 / 10 ^ 6 \<le> D \<and> D \<le> 2 / 10 \<and> 1 / 10 ^ 4 \<le> W \<and> 0 \<le> b \<and> b \<le> 1
            \<and> 2 \<le> sqrt ((1 + sqrt D)\<^sup>2 - b\<^sup>2) / (pi * W))
          \<longrightarrow> log_prior (Fin D) (Fin W) (Fin b) = NInf)"
proof (cases "2 / 10 ^ 6 \<le> D \<and> D \<le> 2 / 10 \<and> 1 / 10 ^ 4 \<le> W \<and> 0 \<le> b \<and> b \<le> 1")
  case True
  then show ?thesis using log_prior_guards_pass [of D W b] by auto
next
  case False
  then show ?thesis using log_prior_guard_fails [of D W b] by auto
qed

lemma aR_at_boundary: "2 \<le> sqrt ((1 + sqrt (2 / 10))\<^sup>2 - 0\<^sup>2) / (pi * (1 / 10))"
proof -
  have "0 \<le> sqrt (2 / 10 :: real)" by simp
  then have s: "sqrt ((1 + sqrt (2 / 10))\<^sup>2 - 0\<^sup>2) = 1 + sqrt (2 / 10 :: real)" by simp
  have "pi < 4" by (rule pi_less_4)
  then have "2 * (pi * (1 / 10)) \<le> 1" by simp
  also have "\<dots> \<le> 1 + sqrt (2 / 10 :: real)" by simp
  finally have "2 * (pi * (1 / 10)) \<le> 1 + sqrt (2 / 10 :: real)" .
  then have "2 \<le> (1 + sqrt (2 / 10 :: real)) / (pi * (1 / 10))"
    by (simp add: pos_le_divide_eq)
  then show ?thesis using s by simp
qed

text \<open>
  The depth guard is \<^verbatim>\<open>D < 2e-6 or D > 0.2\<close>, so the end points of the interval are
  accepted: at \<open>D = 0.2\<close>, which is outside the open interval, the result is not minus
  infinity.
\<close>

theorem log_prior_open_interval_counterexample:
  "\<not> ((2 / 10 ^ 6 :: real) < 2 / 10 \<and> (2 / 10 :: real) < 2 / 10)
   \<and> log_prior (Fin (2 / 10)) (Fin (1 / 10)) (Fin 0) \<noteq> NInf"
  using log_prior_guards_pass [of "2 / 10" "1 / 10" 0] aR_at_boundary by simp

theorem log_prior_closed_interval_witness:
  "log_prior (Fin (2 / 10)) (Fin (1 / 10)) (Fin 0) =
     Fin (- ln (2 * sqrt (2 / 10) * (1 / 10)) - ln (sqrt (2 / 10))
          - ln (sqrt ((1 + sqrt (2 / 10))\<^sup>2 - 0\<^sup>2) / (pi * (1 / 10))))
   \<and> log_prior (Fin 1) (Fin (1 / 10)) (Fin 0) = NInf"
  using log_prior_closed_interval [of "2 / 10" "1 / 10" 0]
        log_prior_closed_interval [of 1 "1 / 10" 0] aR_at_boundary
  by simp


section \<open>Keyword arguments: properties\<close>







section \<open>Derived parameters: properties\<close>

lemma setitem_fresh: "nm \<notin> fst ` set ps \<Longrightarrow> setitem ps nm p = ps @ [(nm, p)]"
  by (induction ps) auto














text \<open>The eclipse fit adds \<^verbatim>\<open>k\<close>, \<^verbatim>\<open>aR\<close>, \<^verbatim>\<open>sini\<close> and \<^verbatim>\<open>e\<close> with the same expressions.\<close>

lemma add_derived_eclipse_fresh:
  assumes "set (map fst ps) \<inter> {''k'', ''aR'', ''sini'', ''e''} = {}"
  shows "map (\<lambda>(k, p). (k, expr p)) (add_derived_eclipse ps) =
     map (\<lambda>(k, p). (k, expr p)) ps @
     [(''k'', Some (Sqrt (Name ''D''))),
      (''aR'', Some (Div (Div (Sqrt radicand) (Name ''W'')) Pi)),
      (''sini'', Some (Sqrt (Sub (Num 1) (PowN (Div (Name ''b'') (Name ''aR'')) 2)))),
      (''e'', Some (Add (PowN (Name ''f_c'') 2) (PowN (Name ''f_s'') 2)))]"
proof -
  from assms have f: "''k'' \<notin> fst ` set ps" "''aR'' \<notin> fst ` set ps" "''sini'' \<notin> fst ` set ps"
    "''e'' \<notin> fst ` set ps"
    by auto
  show ?thesis
    unfolding add_derived_eclipse_def add_expr_def Let_def
    by (simp add: setitem_fresh f Parameter_def)
qed




section \<open>The log-posterior functions: properties\<close>

lemma lookup_present: "nm \<in> fst ` set ps \<Longrightarrow> \<exists>par. lookup ps nm = Inr par"
  by (cases "map_of ps nm") (auto simp add: lookup_def map_of_eq_None_iff)

lemma set_value_keys: "fst ` set (set_value ps nm v) = fst ` set ps"
  by (induction ps) (auto simp add: set_value_def)

lemma lookup_set_value:
  "lookup (set_value ps p v) q =
     map_sum id (\<lambda>par. if q = p then par\<lparr>pval := clip par v\<rparr> else par) (lookup ps q)"
  by (induction ps) (auto simp add: lookup_def set_value_def split: option.splits)

text \<open>The first loop writes to the copy only, and to nothing else in the store.\<close>

lemma assign_free_frame:
  "take r (pobjs (snd (assign_free pos vn i r h))) = take r (pobjs h)
   \<and> length (pobjs (snd (assign_free pos vn i r h))) = length (pobjs h)
   \<and> gobjs (snd (assign_free pos vn i r h)) = gobjs h"
  by (induction pos vn i r h rule: assign_free.induct)
     (auto simp add: Let_def split: sum.splits)

text \<open>
  What the first loop returns when the position has a component for each name and the
  names are in the set: it rejects when a component is out of range, and otherwise leaves
  the copy with the components assigned in turn.
\<close>

lemma assign_free_result:
  assumes "r < length (pobjs h)" "i + length vn \<le> length pos"
    and "set vn \<subseteq> fst ` set (pobjs h ! r)"
  shows "fst (assign_free pos vn i r h) =
      Inr (\<not> (\<exists>j < length vn. \<exists>par. lookup (pobjs h ! r) (vn ! j) = Inr par
                 \<and> (flt (pos ! (i + j)) (pmin par) \<or> fgt (pos ! (i + j)) (pmax par))))
    \<and> (fst (assign_free pos vn i r h) = Inr True \<longrightarrow>
         pobjs (snd (assign_free pos vn i r h)) ! r =
           fold (\<lambda>(nm, v) q. set_value q nm v) (zip vn (drop i pos)) (pobjs h ! r))"
  using assms
proof (induction pos vn i r h rule: assign_free.induct)
  case (1 pos i parcopy h)
  then show ?case by simp
next
  case (2 pos p vn i parcopy h)
  let ?ps = "pobjs h ! parcopy"
  from "2.prems" have i: "i < length pos" by simp
  from "2.prems" obtain par where par: "lookup ?ps p = Inr par"
    using lookup_present [of p ?ps] by auto
  show ?case
  proof (cases "flt (pos ! i) (pmin par) \<or> fgt (pos ! i) (pmax par)")
    case True
    then have "\<exists>j < length (p # vn). \<exists>par. lookup ?ps ((p # vn) ! j) = Inr par
        \<and> (flt (pos ! (i + j)) (pmin par) \<or> fgt (pos ! (i + j)) (pmax par))"
      using par by (intro exI [of _ 0]) simp
    then show ?thesis using True par i by (simp add: Let_def)
  next
    case False
    let ?h = "h\<lparr>pobjs := (pobjs h)[parcopy := set_value ?ps p (pos ! i)]\<rparr>"
    have step: "assign_free pos (p # vn) i parcopy h = assign_free pos vn (Suc i) parcopy ?h"
      using False par i by (simp add: Let_def)
    have ps': "pobjs ?h ! parcopy = set_value ?ps p (pos ! i)"
      using "2.prems"(1) by simp
    have ih: "fst (assign_free pos vn (Suc i) parcopy ?h) =
        Inr (\<not> (\<exists>j < length vn. \<exists>par. lookup (pobjs ?h ! parcopy) (vn ! j) = Inr par
                 \<and> (flt (pos ! (Suc i + j)) (pmin par) \<or> fgt (pos ! (Suc i + j)) (pmax par))))
      \<and> (fst (assign_free pos vn (Suc i) parcopy ?h) = Inr True \<longrightarrow>
         pobjs (snd (assign_free pos vn (Suc i) parcopy ?h)) ! parcopy =
           fold (\<lambda>(nm, v) q. set_value q nm v) (zip vn (drop (Suc i) pos)) (pobjs ?h ! parcopy))"
      using "2.IH" [OF _ refl par _ ] False i "2.prems"
      by (simp add: ps' set_value_keys)
    have bounds: "(\<exists>par. lookup (set_value ?ps p (pos ! i)) q = Inr par
                 \<and> (flt x (pmin par) \<or> fgt x (pmax par)))
        = (\<exists>par. lookup ?ps q = Inr par \<and> (flt x (pmin par) \<or> fgt x (pmax par)))" for x q
      by (cases "lookup ?ps q") (auto simp add: lookup_set_value)
    have ex: "(\<exists>j < length (p # vn). \<exists>par. lookup ?ps ((p # vn) ! j) = Inr par
        \<and> (flt (pos ! (i + j)) (pmin par) \<or> fgt (pos ! (i + j)) (pmax par)))
      = (\<exists>j < length vn. \<exists>par. lookup ?ps (vn ! j) = Inr par
        \<and> (flt (pos ! (Suc i + j)) (pmin par) \<or> fgt (pos ! (Suc i + j)) (pmax par)))"
      using False par by (auto simp add: less_Suc_eq_0_disj)
    have dr: "drop i pos = pos ! i # drop (Suc i) pos"
      using i by (simp add: Cons_nth_drop_Suc)
    from ih have "fst (assign_free pos vn (Suc i) parcopy ?h) =
        Inr (\<not> (\<exists>j < length (p # vn). \<exists>par. lookup ?ps ((p # vn) ! j) = Inr par
        \<and> (flt (pos ! (i + j)) (pmin par) \<or> fgt (pos ! (i + j)) (pmax par))))"
      by (simp only: ps' bounds ex)
    moreover from ih "2.prems"(1) have "fst (assign_free pos vn (Suc i) parcopy ?h) = Inr True \<longrightarrow>
         pobjs (snd (assign_free pos vn (Suc i) parcopy ?h)) ! parcopy =
           fold (\<lambda>(nm, v) q. set_value q nm v) (zip (p # vn) (drop i pos)) ?ps"
      by (simp add: dr)
    ultimately show ?thesis
      by (simp only: step simp_thms)
  qed
qed




lemma copy_params_result:
  "copy_params r h = (length (pobjs h), h\<lparr>pobjs := pobjs h @ [pobjs h ! r]\<rparr>)"
  by (simp add: copy_params_def)

text \<open>
  What both functions do up to the evaluation of the model, on a position with a component
  for each free name and free names that are in the set: with a component out of range
  they return minus infinity; otherwise the copy gets the components and, with
  \<^verbatim>\<open>return_fit\<close>, the model on the copy is returned.
\<close>

lemma assign_free_copy:
  assumes "params < length (pobjs h)" "length vn \<le> length pos"
    and "set vn \<subseteq> fst ` set (pobjs h ! params)"
  shows "fst (assign_free pos vn 0 (length (pobjs h)) (h\<lparr>pobjs := pobjs h @ [pobjs h ! params]\<rparr>)) =
      Inr (\<not> (\<exists>j < length vn. \<exists>par. lookup (pobjs h ! params) (vn ! j) = Inr par
                 \<and> (flt (pos ! j) (pmin par) \<or> fgt (pos ! j) (pmax par))))
    \<and> (fst (assign_free pos vn 0 (length (pobjs h)) (h\<lparr>pobjs := pobjs h @ [pobjs h ! params]\<rparr>))
          = Inr True \<longrightarrow>
         pobjs (snd (assign_free pos vn 0 (length (pobjs h))
                  (h\<lparr>pobjs := pobjs h @ [pobjs h ! params]\<rparr>))) ! length (pobjs h) =
           fold (\<lambda>(nm, v) q. set_value q nm v) (zip vn pos) (pobjs h ! params))"
  using assign_free_result [of "length (pobjs h)" "h\<lparr>pobjs := pobjs h @ [pobjs h ! params]\<rparr>" 0 vn pos]
    assms
  by simp

lemma log_posterior_jitter_prefix:
  assumes wf: "params < length (pobjs h)" "length vn \<le> length pos"
      "set vn \<subseteq> fst ` set (pobjs h ! params)"
  shows "let ps = fold (\<lambda>(nm, v) q. set_value q nm v) (zip vn pos) (pobjs h ! params);
             out = (\<exists>j < length vn. \<exists>par. lookup (pobjs h ! params) (vn ! j) = Inr par
                 \<and> (flt (pos ! j) (pmin par) \<or> fgt (pos ! j) (pmax par)));
             r = fst (log_posterior_jitter pos model time flux flux_err params vn return_fit h)
         in (out \<longrightarrow> r = Inr (LogProb NInf))
          \<and> (\<not> out \<and> return_fit \<longrightarrow> r = Inr (Fit (model ps time)))
          \<and> (\<not> return_fit \<and> \<not> list_all isfinite (model ps time) \<longrightarrow> r = Inr (LogProb NInf))
          \<and> (\<not> return_fit \<and> lnprior_of ps = Inr None \<longrightarrow> r = Inr (LogProb NInf))"
proof -
  let ?h1 = "h\<lparr>pobjs := pobjs h @ [pobjs h ! params]\<rparr>"
  define out where "out \<longleftrightarrow> (\<exists>j < length vn. \<exists>par. lookup (pobjs h ! params) (vn ! j) = Inr par
                 \<and> (flt (pos ! j) (pmin par) \<or> fgt (pos ! j) (pmax par)))"
  obtain res h2 where a: "assign_free pos vn 0 (length (pobjs h)) ?h1 = (res, h2)"
    by (cases "assign_free pos vn 0 (length (pobjs h)) ?h1")
  from assign_free_copy [OF wf] a
  have res: "res = Inr (\<not> out)"
    and ps: "res = Inr True \<longrightarrow> pobjs h2 ! length (pobjs h) =
           fold (\<lambda>(nm, v) q. set_value q nm v) (zip vn pos) (pobjs h ! params)"
    unfolding out_def by simp_all
  show ?thesis
    unfolding Let_def out_def [symmetric]
  proof (cases out)
    case True
    with res have "res = Inr False" by simp
    with True show "(out \<longrightarrow> fst (log_posterior_jitter pos model time flux flux_err params vn return_fit h) = Inr (LogProb NInf))
      \<and> (\<not> out \<and> return_fit \<longrightarrow> fst (log_posterior_jitter pos model time flux flux_err params vn return_fit h) =
            Inr (Fit (model (fold (\<lambda>(nm, v) q. set_value q nm v) (zip vn pos) (pobjs h ! params)) time)))
      \<and> (\<not> return_fit \<and> \<not> list_all isfinite
             (model (fold (\<lambda>(nm, v) q. set_value q nm v) (zip vn pos) (pobjs h ! params)) time)
           \<longrightarrow> fst (log_posterior_jitter pos model time flux flux_err params vn return_fit h) = Inr (LogProb NInf))
      \<and> (\<not> return_fit
           \<and> lnprior_of (fold (\<lambda>(nm, v) q. set_value q nm v) (zip vn pos) (pobjs h ! params)) = Inr None
           \<longrightarrow> fst (log_posterior_jitter pos model time flux flux_err params vn return_fit h) = Inr (LogProb NInf))"
      by (simp add: log_posterior_jitter_def copy_params_result a Let_def)
  next
    case False
    with res have r: "res = Inr True" by simp
    with ps have "pobjs h2 ! length (pobjs h) =
           fold (\<lambda>(nm, v) q. set_value q nm v) (zip vn pos) (pobjs h ! params)"
      by simp
    with False r show "(out \<longrightarrow> fst (log_posterior_jitter pos model time flux flux_err params vn return_fit h) = Inr (LogProb NInf))
      \<and> (\<not> out \<and> return_fit \<longrightarrow> fst (log_posterior_jitter pos model time flux flux_err params vn return_fit h) =
            Inr (Fit (model (fold (\<lambda>(nm, v) q. set_value q nm v) (zip vn pos) (pobjs h ! params)) time)))
      \<and> (\<not> return_fit \<and> \<not> list_all isfinite
             (model (fold (\<lambda>(nm, v) q. set_value q nm v) (zip vn pos) (pobjs h ! params)) time)
           \<longrightarrow> fst (log_posterior_jitter pos model time flux flux_err params vn return_fit h) = Inr (LogProb NInf))
      \<and> (\<not> return_fit
           \<and> lnprior_of (fold (\<lambda>(nm, v) q. set_value q nm v) (zip vn pos) (pobjs h ! params)) = Inr None
           \<longrightarrow> fst (log_posterior_jitter pos model time flux flux_err params vn return_fit h) = Inr (LogProb NInf))"
      by (simp add: log_posterior_jitter_def copy_params_result a Let_def)
  qed
qed

lemma log_posterior_SHOTerm_prefix:
  assumes wf: "params < length (pobjs h)" "length vn \<le> length pos"
      "set vn \<subseteq> fst ` set (pobjs h ! params)"
  shows "let ps = fold (\<lambda>(nm, v) q. set_value q nm v) (zip vn pos) (pobjs h ! params);
             out = (\<exists>j < length vn. \<exists>par. lookup (pobjs h ! params) (vn ! j) = Inr par
                 \<and> (flt (pos ! j) (pmin par) \<or> fgt (pos ! j) (pmax par)));
             r = fst (log_posterior_SHOTerm pos model time flux flux_err params vn gpr ll return_fit h)
         in (out \<longrightarrow> r = Inr (LogProb NInf))
          \<and> (\<not> out \<and> return_fit \<longrightarrow> r = Inr (Fit (model ps time)))
          \<and> (\<not> return_fit \<and> \<not> list_all isfinite (model ps time) \<longrightarrow> r = Inr (LogProb NInf))
          \<and> (\<not> return_fit \<and> lnprior_of ps = Inr None \<longrightarrow> r = Inr (LogProb NInf))"
proof -
  let ?h1 = "h\<lparr>pobjs := pobjs h @ [pobjs h ! params]\<rparr>"
  define out where "out \<longleftrightarrow> (\<exists>j < length vn. \<exists>par. lookup (pobjs h ! params) (vn ! j) = Inr par
                 \<and> (flt (pos ! j) (pmin par) \<or> fgt (pos ! j) (pmax par)))"
  obtain res h2 where a: "assign_free pos vn 0 (length (pobjs h)) ?h1 = (res, h2)"
    by (cases "assign_free pos vn 0 (length (pobjs h)) ?h1")
  from assign_free_copy [OF wf] a
  have res: "res = Inr (\<not> out)"
    and ps: "res = Inr True \<longrightarrow> pobjs h2 ! length (pobjs h) =
           fold (\<lambda>(nm, v) q. set_value q nm v) (zip vn pos) (pobjs h ! params)"
    unfolding out_def by simp_all
  show ?thesis
    unfolding Let_def out_def [symmetric]
  proof (cases out)
    case True
    with res have "res = Inr False" by simp
    with True show "(out \<longrightarrow> fst (log_posterior_SHOTerm pos model time flux flux_err params vn gpr ll return_fit h) = Inr (LogProb NInf))
      \<and> (\<not> out \<and> return_fit \<longrightarrow> fst (log_posterior_SHOTerm pos model time flux flux_err params vn gpr ll return_fit h) =
            Inr (Fit (model (fold (\<lambda>(nm, v) q. set_value q nm v) (zip vn pos) (pobjs h ! params)) time)))
      \<and> (\<not> return_fit \<and> \<not> list_all isfinite
             (model (fold (\<lambda>(nm, v) q. set_value q nm v) (zip vn pos) (pobjs h ! params)) time)
           \<longrightarrow> fst (log_posterior_SHOTerm pos model time flux flux_err params vn gpr ll return_fit h) = Inr (LogProb NInf))
      \<and> (\<not> return_fit
           \<and> lnprior_of (fold (\<lambda>(nm, v) q. set_value q nm v) (zip vn pos) (pobjs h ! params)) = Inr None
           \<longrightarrow> fst (log_posterior_SHOTerm pos model time flux flux_err params vn gpr ll return_fit h) = Inr (LogProb NInf))"
      by (simp add: log_posterior_SHOTerm_def copy_params_result a Let_def)
  next
    case False
    with res have r: "res = Inr True" by simp
    with ps have "pobjs h2 ! length (pobjs h) =
           fold (\<lambda>(nm, v) q. set_value q nm v) (zip vn pos) (pobjs h ! params)"
      by simp
    with False r show "(out \<longrightarrow> fst (log_posterior_SHOTerm pos model time flux flux_err params vn gpr ll return_fit h) = Inr (LogProb NInf))
      \<and> (\<not> out \<and> return_fit \<longrightarrow> fst (log_posterior_SHOTerm pos model time flux flux_err params vn gpr ll return_fit h) =
            Inr (Fit (model (fold (\<lambda>(nm, v) q. set_value q nm v) (zip vn pos) (pobjs h ! params)) time)))
      \<and> (\<not> return_fit \<and> \<not> list_all isfinite
             (model (fold (\<lambda>(nm, v) q. set_value q nm v) (zip vn pos) (pobjs h ! params)) time)
           \<longrightarrow> fst (log_posterior_SHOTerm pos model time flux flux_err params vn gpr ll return_fit h) = Inr (LogProb NInf))
      \<and> (\<not> return_fit
           \<and> lnprior_of (fold (\<lambda>(nm, v) q. set_value q nm v) (zip vn pos) (pobjs h ! params)) = Inr None
           \<longrightarrow> fst (log_posterior_SHOTerm pos model time flux flux_err params vn gpr ll return_fit h) = Inr (LogProb NInf))"
      by (simp add: log_posterior_SHOTerm_def copy_params_result a Let_def)
  qed
qed


lemma lnlike_SHOTerm_frame: "pobjs (snd (lnlike_SHOTerm ps flux fit gpr ll h)) = pobjs h"
  by (simp add: lnlike_SHOTerm_def set_parameter_def Let_def split: sum.splits)

lemma example_in_range:
  "\<not> (\<exists>j < length [''D'', ''W'', ''b'']. \<exists>par.
         lookup (pobjs example_store ! 0) ([''D'', ''W'', ''b''] ! j) = Inr par
         \<and> (flt ([Fin (1 / 100), Fin (1 / 10), Fin (1 / 2)] ! j) (pmin par)
             \<or> fgt ([Fin (1 / 100), Fin (1 / 10), Fin (1 / 2)] ! j) (pmax par)))"
proof (intro notI, elim exE conjE)
  fix j par
  assume j: "j < length [''D'', ''W'', ''b'']"
    and l: "lookup (pobjs example_store ! 0) ([''D'', ''W'', ''b''] ! j) = Inr par"
    and out: "flt ([Fin (1 / 100), Fin (1 / 10), Fin (1 / 2)] ! j) (pmin par)
             \<or> fgt ([Fin (1 / 100), Fin (1 / 10), Fin (1 / 2)] ! j) (pmax par)"
  from j consider "j = 0" | "j = 1" | "j = 2"
    by (auto simp add: less_Suc_eq)
  then show False
    using l out
    by cases
       (auto simp add: lookup_def example_store_def transit_example_def Parameter_def fgt_def)
qed




lemma log_posterior_jitter_store:
  "snd (log_posterior_jitter pos model time flux flux_err params vn return_fit h) =
     snd (assign_free pos vn 0 (length (pobjs h)) (h\<lparr>pobjs := pobjs h @ [pobjs h ! params]\<rparr>))"
  by (simp add: log_posterior_jitter_def copy_params_result Let_def
        split: prod.splits sum.splits bool.splits option.splits)

lemma log_posterior_SHOTerm_store:
  "pobjs (snd (log_posterior_SHOTerm pos model time flux flux_err params vn gpr ll return_fit h)) =
     pobjs (snd (assign_free pos vn 0 (length (pobjs h))
                   (h\<lparr>pobjs := pobjs h @ [pobjs h ! params]\<rparr>)))
   \<and> (return_fit \<longrightarrow>
        snd (log_posterior_SHOTerm pos model time flux flux_err params vn gpr ll return_fit h) =
          snd (assign_free pos vn 0 (length (pobjs h))
                 (h\<lparr>pobjs := pobjs h @ [pobjs h ! params]\<rparr>)))"
proof -
  have "pobjs (snd (case lnlike_SHOTerm ps flux fit gpr ll h2 of
          (Inl e, h3) \<Rightarrow> (Inl e, h3)
        | (Inr lnlike, h3) \<Rightarrow> (Inr (LogProb (fadd lnlike lnprior)), h3))) = pobjs h2"
    for ps fit h2 lnprior
    using lnlike_SHOTerm_frame [of ps flux fit gpr ll h2]
    by (cases "lnlike_SHOTerm ps flux fit gpr ll h2") (auto split: sum.splits)
  then show ?thesis
    by (simp add: log_posterior_SHOTerm_def copy_params_result Let_def
          split: prod.splits sum.splits bool.splits option.splits)
qed

text \<open>
  Claim C8, as the code has it.  For a position vector with a component for each free name,
  free names that are parameters of the set, and each component within the range of its
  parameter, both functions called with \<^verbatim>\<open>return_fit\<close> return the model evaluated on the
  copy of the set with the components assigned; the data, the priors and the
  Gaussian-process object play no part.
\<close>

theorem return_fit_returns_model:
  assumes wf: "params < length (pobjs h)" "length vn \<le> length pos"
      "set vn \<subseteq> fst ` set (pobjs h ! params)"
    and inr: "\<not> (\<exists>j < length vn. \<exists>par. lookup (pobjs h ! params) (vn ! j) = Inr par
                 \<and> (flt (pos ! j) (pmin par) \<or> fgt (pos ! j) (pmax par)))"
  shows "fst (log_posterior_jitter pos model time flux flux_err params vn True h) =
           Inr (Fit (model (fold (\<lambda>(nm, v) q. set_value q nm v) (zip vn pos) (pobjs h ! params)) time))
       \<and> fst (log_posterior_SHOTerm pos model time flux flux_err params vn gpr ll True h) =
           Inr (Fit (model (fold (\<lambda>(nm, v) q. set_value q nm v) (zip vn pos) (pobjs h ! params)) time))
       \<and> gobjs (snd (log_posterior_SHOTerm pos model time flux flux_err params vn gpr ll True h))
           = gobjs h"
proof -
  have "gobjs (snd (log_posterior_SHOTerm pos model time flux flux_err params vn gpr ll True h))
           = gobjs h"
    using log_posterior_SHOTerm_store [of pos model time flux flux_err params vn gpr ll True h]
      assign_free_frame [of "length (pobjs h)" pos vn 0 "h\<lparr>pobjs := pobjs h @ [pobjs h ! params]\<rparr>"]
    by simp
  then show ?thesis
    using log_posterior_jitter_prefix [OF wf, of model time flux flux_err True]
      log_posterior_SHOTerm_prefix [OF wf, of model time flux flux_err gpr ll True] inr
    unfolding Let_def by blast
qed

theorem return_fit_returns_model_witness:
  "fst (log_posterior_jitter [Fin (1 / 100), Fin (1 / 10), Fin (1 / 2)] flat_model
          [Fin 0, Fin (1 / 10)] [Fin 1, Fin 1] [Fin (1 / 1000), Fin (1 / 1000)] 0
          [''D'', ''W'', ''b''] True example_store) = Inr (Fit [Fin 1, Fin 1])
   \<and> fst (log_posterior_SHOTerm [Fin (1 / 100), Fin (1 / 10), Fin (1 / 2)] flat_model
          [Fin 0, Fin (1 / 10)] [Fin 1, Fin 1] [Fin (1 / 1000), Fin (1 / 1000)] 0
          [''D'', ''W'', ''b''] 0 (\<lambda>g r. Fin 0) True example_store) = Inr (Fit [Fin 1, Fin 1])"
proof -
  have wf: "0 < length (pobjs example_store)"
      "length [''D'', ''W'', ''b''] \<le> length [Fin (1 / 100), Fin (1 / 10), Fin (1 / 2)]"
      "set [''D'', ''W'', ''b''] \<subseteq> fst ` set (pobjs example_store ! 0)"
    by (simp_all add: example_store_def transit_example_def)
  from return_fit_returns_model [OF wf example_in_range, of flat_model "[Fin 0, Fin (1 / 10)]"]
  show ?thesis
    by (simp add: flat_model_def)
qed

text \<open>
  The range of each component is tested before the model is evaluated, also with
  \<^verbatim>\<open>return_fit\<close>: for a depth of 0.6, above the upper bound 0.5 of \<^verbatim>\<open>D\<close>, the functions
  return minus infinity and no model.
\<close>

theorem return_fit_counterexample:
  "fst (log_posterior_jitter [Fin (6 / 10), Fin (1 / 10), Fin (1 / 2)] flat_model
          [Fin 0] [Fin 1] [Fin (1 / 1000)] 0 [''D'', ''W'', ''b''] True example_store)
     = Inr (LogProb NInf)
   \<and> fst (log_posterior_SHOTerm [Fin (6 / 10), Fin (1 / 10), Fin (1 / 2)] flat_model
          [Fin 0] [Fin 1] [Fin (1 / 1000)] 0 [''D'', ''W'', ''b''] 0 (\<lambda>g r. Fin 0) True
          example_store)
     = Inr (LogProb NInf)"
  by (simp add: log_posterior_jitter_def log_posterior_SHOTerm_def copy_params_def
        example_store_def transit_example_def lookup_def Parameter_def fgt_def Let_def)

text \<open>
  Claim C10.  A call of either log-posterior function, whatever it returns or raises,
  leaves every parameter set that was in the store as it was; in particular the caller's
  set, with the values, bounds, priors and standard errors of its parameters.  The
  assignments go to the copy, which is a new object behind the old ones.
\<close>

theorem log_posterior_keeps_params:
  "take (length (pobjs h))
       (pobjs (snd (log_posterior_jitter pos model time flux flux_err params vn return_fit h)))
     = pobjs h
   \<and> take (length (pobjs h))
       (pobjs (snd (log_posterior_SHOTerm pos model time flux flux_err params vn gpr ll return_fit h)))
     = pobjs h
   \<and> (params < length (pobjs h) \<longrightarrow>
        pobjs (snd (log_posterior_jitter pos model time flux flux_err params vn return_fit h)) ! params
          = pobjs h ! params
        \<and> pobjs (snd (log_posterior_SHOTerm pos model time flux flux_err params vn gpr ll
                        return_fit h)) ! params
          = pobjs h ! params)"
proof -
  let ?h2 = "snd (assign_free pos vn 0 (length (pobjs h)) (h\<lparr>pobjs := pobjs h @ [pobjs h ! params]\<rparr>))"
  have t: "take (length (pobjs h)) (pobjs ?h2) = pobjs h"
    using assign_free_frame [of "length (pobjs h)" pos vn 0 "h\<lparr>pobjs := pobjs h @ [pobjs h ! params]\<rparr>"]
    by simp
  have j: "pobjs (snd (log_posterior_jitter pos model time flux flux_err params vn return_fit h))
      = pobjs ?h2"
    by (simp only: log_posterior_jitter_store)
  have s: "pobjs (snd (log_posterior_SHOTerm pos model time flux flux_err params vn gpr ll return_fit h))
      = pobjs ?h2"
    using log_posterior_SHOTerm_store [of pos model time flux flux_err params vn gpr ll return_fit h]
    by simp
  have n: "params < length (pobjs h) \<Longrightarrow> pobjs ?h2 ! params = pobjs h ! params"
    using t by (metis nth_take)
  show ?thesis
    unfolding j s using t n by simp
qed

theorem log_posterior_keeps_params_witness:
  "0 < length (pobjs example_store)
   \<and> pobjs (snd (log_posterior_jitter [Fin (2 / 100), Fin (2 / 10), Fin (1 / 4)] flat_model
          [Fin 0] [Fin 1] [Fin (1 / 1000)] 0 [''D'', ''W'', ''b''] False example_store)) ! 0
       = transit_example
   \<and> pobjs (snd (log_posterior_SHOTerm [Fin (2 / 100), Fin (2 / 10), Fin (1 / 4)] flat_model
          [Fin 0] [Fin 1] [Fin (1 / 1000)] 0 [''D'', ''W'', ''b''] 0 (\<lambda>g r. Fin 0) False
          example_store)) ! 0
       = transit_example"
proof -
  have h: "0 < length (pobjs example_store)" "pobjs example_store ! 0 = transit_example"
    by (simp_all add: example_store_def)
  from log_posterior_keeps_params [of example_store "[Fin (2 / 100), Fin (2 / 10), Fin (1 / 4)]"
      flat_model "[Fin 0]" "[Fin 1]" "[Fin (1 / 1000)]" 0 "[''D'', ''W'', ''b'']" False 0
      "\<lambda>g r. Fin 0"]
  show ?thesis
    using h by simp
qed

section \<open>The least-squares fit: properties\<close>






section \<open>The ensemble sampler driver: properties\<close>

lemma scale_of_follows_spec:
  "\<not> (\<exists>se. stderr p = Some se \<and> \<not> isfinite se \<and> user_data p \<noteq> None) \<Longrightarrow>
     scale_of p = scale_spec p"
  by (auto simp add: scale_of_def scale_spec_def split: option.splits)

text \<open>
  Claim C9 fails on the code where the optimizer has reported a standard error that is not
  finite for a parameter with a Gaussian prior: the specification's order gives the sigma of
  the prior, the code a tenth of the width of the bounds, which for a parameter made from a
  value with uncertainty (bounds at infinity) is infinite.  Elsewhere the code follows the
  order (\<open>scale_of_follows_spec\<close>).
\<close>

theorem scale_of_nonfinite_stderr:
  "scale_of ((Parameter ''dfdx'' (Fin 0) True (Fin (- 1)) (Fin 1) None
                (Some \<lparr>nominal_value = Fin 0, std_dev = Fin (1 / 10)\<rparr>))\<lparr>stderr := Some NaN\<rparr>)
     = Fin (2 / 10)
   \<and> scale_spec ((Parameter ''dfdx'' (Fin 0) True (Fin (- 1)) (Fin 1) None
                (Some \<lparr>nominal_value = Fin 0, std_dev = Fin (1 / 10)\<rparr>))\<lparr>stderr := Some NaN\<rparr>)
     = Fin (1 / 10)
   \<and> map_sum id (\<lambda>p. scale_of (p\<lparr>stderr := Some PInf\<rparr>))
       (kw_to_Parameter ''dfdx'' (KUFloat \<lparr>nominal_value = Fin 0, std_dev = Fin (1 / 10)\<rparr>))
     = Inr PInf"
  by (simp add: scale_of_def scale_spec_def Parameter_def kw_to_Parameter_def fsub_def
        inf_times_def)

lemma draw_walker_returns_accepted:
  assumes "draw_walker logp vv vs s randn k = Some y"
  shows "\<exists>n. logp (position vv vs (map (randn (k + n)) [0..<length vv]) s) \<noteq> Inr NInf"
proof (rule draw_walker.raw_induct
    [where P = "\<lambda>logp vv vs s randn k y.
       \<exists>n. logp (position vv vs (map (randn (k + n)) [0..<length vv]) s) \<noteq> Inr NInf",
     OF _ assms])
  fix dw logp vv vs s randn k and y :: "(error + fval list) \<times> nat"
  assume ih: "\<And>logp vv vs s randn k y. dw logp vv vs s randn k = Some y \<Longrightarrow>
      \<exists>n. logp (position vv vs (map (randn (k + n)) [0..<length vv]) s) \<noteq> Inr NInf"
    and body: "(let pos_i = position vv vs (map (randn k) [0..<length vv]) s in
      case logp pos_i of
        Inl e \<Rightarrow> Some (Inl e, Suc k)
      | Inr lnlike_i \<Rightarrow>
          if lnlike_i = NInf then dw logp vv vs s randn (Suc k)
          else Some (Inr pos_i, Suc k)) = Some y"
  show "\<exists>n. logp (position vv vs (map (randn (k + n)) [0..<length vv]) s) \<noteq> Inr NInf"
  proof (cases "logp (position vv vs (map (randn k) [0..<length vv]) s) = Inr NInf")
    case True
    with body have "dw logp vv vs s randn (Suc k) = Some y" by (simp add: Let_def)
    from ih [OF this] obtain n where
      "logp (position vv vs (map (randn (Suc k + n)) [0..<length vv]) s) \<noteq> Inr NInf" ..
    then have "logp (position vv vs (map (randn (k + Suc n)) [0..<length vv]) s) \<noteq> Inr NInf"
      by simp
    then show ?thesis ..
  next
    case False
    then have "logp (position vv vs (map (randn (k + 0)) [0..<length vv]) s) \<noteq> Inr NInf"
      by simp
    then show ?thesis ..
  qed
qed

lemma draw_walker_diverges:
  assumes "\<forall>n. logp (position vv vs (map (randn (k + n)) [0..<length vv]) s) = Inr NInf"
  shows "draw_walker logp vv vs s randn k = None"
  using assms draw_walker_returns_accepted [of logp vv vs s randn k]
  by (cases "draw_walker logp vv vs s randn k") auto

lemma draw_walker_accepts:
  assumes "\<forall>n < m. logp (position vv vs (map (randn (k + n)) [0..<length vv]) s) = Inr NInf"
    and "logp (position vv vs (map (randn (k + m)) [0..<length vv]) s) \<noteq> Inr NInf"
  shows "draw_walker logp vv vs s randn k =
     Some (case logp (position vv vs (map (randn (k + m)) [0..<length vv]) s) of
             Inl e \<Rightarrow> Inl e
           | Inr l \<Rightarrow> Inr (position vv vs (map (randn (k + m)) [0..<length vv]) s),
           Suc (k + m))"
  using assms
proof (induction m arbitrary: k)
  case 0
  then show ?case
    by (subst draw_walker.simps) (auto simp add: Let_def split: sum.splits)
next
  case (Suc m)
  from Suc.prems(1) have first: "logp (position vv vs (map (randn k) [0..<length vv]) s) = Inr NInf"
    by (metis add.right_neutral zero_less_Suc)
  have "\<forall>n < m. logp (position vv vs (map (randn (Suc k + n)) [0..<length vv]) s) = Inr NInf"
    using Suc.prems(1) by (metis Suc_less_eq add_Suc_shift)
  moreover have "logp (position vv vs (map (randn (Suc k + m)) [0..<length vv]) s) \<noteq> Inr NInf"
    using Suc.prems(2) by simp
  ultimately have "draw_walker logp vv vs s randn (Suc k) =
     Some (case logp (position vv vs (map (randn (Suc k + m)) [0..<length vv]) s) of
             Inl e \<Rightarrow> Inl e
           | Inr l \<Rightarrow> Inr (position vv vs (map (randn (Suc k + m)) [0..<length vv]) s),
           Suc (Suc k + m))"
    by (rule Suc.IH)
  then show ?case
    by (subst draw_walker.simps) (simp add: first Let_def cong: sum.case_cong)
qed

text \<open>
  Claim C1, as the code has it.  The loop that finds the starting position of a walker has
  no bound on its attempts and no error of its own.  It returns the first drawn position
  whose log-posterior is not minus infinity (or the exception the log-posterior function
  raises there), after as many draws as that takes; and when every drawn position has a
  log-posterior of minus infinity it does not return, and neither does the initialization
  of the walkers.
\<close>

theorem draw_walker_unbounded:
  "((\<forall>n < m. logp (position vv vs (map (randn (k + n)) [0..<length vv]) s) = Inr NInf)
      \<and> logp (position vv vs (map (randn (k + m)) [0..<length vv]) s) \<noteq> Inr NInf
    \<longrightarrow> draw_walker logp vv vs s randn k =
          Some (case logp (position vv vs (map (randn (k + m)) [0..<length vv]) s) of
                  Inl e \<Rightarrow> Inl e
                | Inr l \<Rightarrow> Inr (position vv vs (map (randn (k + m)) [0..<length vv]) s),
                Suc (k + m)))
   \<and> ((\<forall>n. logp (position vv vs (map (randn (k + n)) [0..<length vv]) s) = Inr NInf)
    \<longrightarrow> draw_walker logp vv vs s randn k = None
        \<and> init_walkers logp vv vs s randn (Suc nwalkers) k = None)"
  using draw_walker_accepts [of m logp vv vs randn k s]
    draw_walker_diverges [of logp vv vs randn k s]
  by simp

theorem draw_walker_unbounded_witness:
  "draw_walker (\<lambda>pos. if flt (hd pos) (Fin 0) then Inr NInf else Inr (Fin 0))
      [Fin 0] [Fin 1] (Fin 1) (\<lambda>k j. real k - 2) 0 = Some (Inr [Fin 0], 3)
   \<and> draw_walker (\<lambda>pos. if flt (hd pos) (Fin 0) then Inr NInf else Inr (Fin 0))
      [Fin 0] [Fin 1] (Fin 1) (\<lambda>k j. - 1) 0 = None"
proof -
  have "\<forall>n < 2. (if flt (hd (position [Fin 0] [Fin 1]
          (map (\<lambda>j. real (0 + n) - 2) [0..<length [Fin (0 :: real)]]) (Fin 1))) (Fin 0)
        then Inr NInf else Inr (Fin 0)) = (Inr NInf :: error + fval)"
    by (simp add: position_def)
  moreover have "(if flt (hd (position [Fin 0] [Fin 1]
          (map (\<lambda>j. real (0 + 2) - 2) [0..<length [Fin (0 :: real)]]) (Fin 1))) (Fin 0)
        then Inr NInf else Inr (Fin 0)) \<noteq> (Inr NInf :: error + fval)"
    by (simp add: position_def)
  moreover have "\<forall>n. (if flt (hd (position [Fin 0] [Fin 1]
          (map (\<lambda>j. - 1) [0..<length [Fin (0 :: real)]]) (Fin 1))) (Fin 0)
        then Inr NInf else Inr (Fin 0)) = (Inr NInf :: error + fval)"
    by (simp add: position_def)
  ultimately show ?thesis
    using draw_walker_unbounded [of 2 "\<lambda>pos. if flt (hd pos) (Fin 0) then Inr NInf else Inr (Fin 0)"
        "[Fin 0]" "[Fin 1]" "\<lambda>k j. real k - 2" 0 "Fin 1"]
      draw_walker_unbounded [of 0 "\<lambda>pos. if flt (hd pos) (Fin 0) then Inr NInf else Inr (Fin 0)"
        "[Fin 0]" "[Fin 1]" "\<lambda>k j. - 1" 0 "Fin 1"]
    by (simp add: position_def)
qed

text \<open>
  With a log-posterior that is minus infinity everywhere, the search for the starting
  position of the first walker does not end: there is no result and no error.
\<close>

theorem walker_initialization_counterexample:
  "draw_walker (\<lambda>pos. Inr NInf) [Fin (1 / 100)] [Fin (1 / 1000)] (Fin (1 / 1000)) (\<lambda>k j. 0) 0 = None
   \<and> init_walkers (\<lambda>pos. Inr NInf) [Fin (1 / 100)] [Fin (1 / 1000)] (Fin (1 / 1000)) (\<lambda>k j. 0)
       (Suc 0) 0 = None"
  using draw_walker_diverges [of "\<lambda>pos. Inr NInf" "[Fin (1 / 100)]" "[Fin (1 / 1000)]" "\<lambda>k j. 0" 0
      "Fin (1 / 1000)"]
  by simp









end
